theory Spec2Isabelle
  imports Complex_Main "HOL-Library.Word"
begin

unbundle bit_operations_syntax

section \<open>The LM75 driver (PythonLibraries/LM75.py)\<close>

text \<open>
  The driver is a Python class over the \<open>smbus\<close> module. Python integers are unbounded
  and are modelled as \<open>int\<close>; the float results of the temperature getters are
  modelled as \<open>rat\<close>: every value the decoders compute is \<open>k / 2\<close> with \<open>k\<close> an integer
  of absolute value at most 255, which binary floating point represents and multiplies
  exactly.
\<close>

subsection \<open>The bus\<close>

text \<open>
  \<open>smbus\<close> is an external module. Its four transactions are modelled over a register
  file: a byte register and a word register for each (bus number, device address,
  register index), together with the list of the transactions issued so far, oldest
  first. A byte read returns a Python integer in 0..255 and a word read one in 0..65535;
  a write stores its argument reduced to the register's width and is logged with the
  argument as the caller passed it. Every transaction is taken to succeed (no
  \<open>IOError\<close>). Opening the device with \<open>smbus.SMBus(n)\<close> is not a transaction and is
  not logged.
\<close>

datatype bus_op =
    ReadByte int int int
  | WriteByte int int int int
  | ReadWord int int int
  | WriteWord int int int int

record world =
  byte_reg :: "int \<times> int \<times> int \<Rightarrow> 8 word"
  word_reg :: "int \<times> int \<times> int \<Rightarrow> 16 word"
  trace :: "bus_op list"
  stdout :: "string list"

definition read_byte_data :: "int \<Rightarrow> int \<Rightarrow> int \<Rightarrow> world \<Rightarrow> int \<times> world" where
  "read_byte_data b a r w =
     (uint (byte_reg w (b, a, r)), w\<lparr>trace := trace w @ [ReadByte b a r]\<rparr>)"

definition write_byte_data :: "int \<Rightarrow> int \<Rightarrow> int \<Rightarrow> int \<Rightarrow> world \<Rightarrow> world" where
  "write_byte_data b a r v w =
     w\<lparr>byte_reg := (byte_reg w)((b, a, r) := word_of_int v),
       trace := trace w @ [WriteByte b a r v]\<rparr>"

definition read_word_data :: "int \<Rightarrow> int \<Rightarrow> int \<Rightarrow> world \<Rightarrow> int \<times> world" where
  "read_word_data b a r w =
     (uint (word_reg w (b, a, r)), w\<lparr>trace := trace w @ [ReadWord b a r]\<rparr>)"

definition write_word_data :: "int \<Rightarrow> int \<Rightarrow> int \<Rightarrow> int \<Rightarrow> world \<Rightarrow> world" where
  "write_word_data b a r v w =
     w\<lparr>word_reg := (word_reg w)((b, a, r) := word_of_int v),
       trace := trace w @ [WriteWord b a r v]\<rparr>"

subsection \<open>The class\<close>

text \<open>The instance attributes \<open>self.bus\<close> and \<open>self.address\<close>.\<close>

record LM75 =
  bus :: int
  address :: int

text \<open>The class constants \<open>__TEMP\<close>, \<open>_CONFIG\<close>, \<open>_THYST\<close> and \<open>_TSET\<close>.\<close>

definition TEMP :: int where "TEMP = 0x00"
definition CONFIG :: int where "CONFIG = 0x01"
definition THYST :: int where "THYST = 0x02"
definition TSET :: int where "TSET = 0x03"

definition getConf :: "LM75 \<Rightarrow> world \<Rightarrow> int \<times> world" where
  "getConf self w = read_byte_data (bus self) (address self) CONFIG w"

definition setConf :: "LM75 \<Rightarrow> int \<Rightarrow> world \<Rightarrow> world" where
  "setConf self conf w = write_byte_data (bus self) (address self) CONFIG conf w"

definition setThys :: "LM75 \<Rightarrow> int \<Rightarrow> world \<Rightarrow> world" where
  "setThys self thys w = write_word_data (bus self) (address self) THYST thys w"

definition setTset :: "LM75 \<Rightarrow> int \<Rightarrow> world \<Rightarrow> world" where
  "setTset self tos w = write_word_data (bus self) (address self) TSET tos w"

text \<open>
  \<open>__init__(self, add, bus=1)\<close>: stores the two attributes, then writes the
  configuration, the hysteresis and the set-point.
\<close>

definition init :: "int \<Rightarrow> int \<Rightarrow> world \<Rightarrow> LM75 \<times> world" where
  "init add b w =
     (let self = \<lparr>bus = b, address = add\<rparr>;
          w1 = setConf self 0x00 w;
          w2 = setThys self 0x004B w1;
          w3 = setTset self 0x0050 w2
      in (self, w3))"

text \<open>
  \<open>setFaultQueue\<close>: the membership test, the message and \<open>return False\<close>; otherwise
  read, \<open>cfgVal | (value << 3)\<close>, write, \<open>return True\<close>.
\<close>

definition setFaultQueue :: "LM75 \<Rightarrow> int \<Rightarrow> world \<Rightarrow> bool \<times> world" where
  "setFaultQueue self v w =
     (if v \<notin> set [0, 1, 2, 3]
      then (False,
            w\<lparr>stdout := stdout w @ [''Error: Invalid fault queue value. Must be  0,1,2 or 3'']\<rparr>)
      else
        (let (cfgVal, w1) = getConf self w;
             cfgVal = cfgVal OR push_bit 3 v;
             w2 = setConf self cfgVal w1
         in (True, w2)))"

text \<open>
  The three temperature getters. Each reads a word and decodes it; the decoding is
  written out three times in the source, and so it is here. \<open>(-1) ** s\<close> on Python
  integers with \<open>s \<ge> 0\<close> is the integer power; \<open>s\<close> is \<open>x & 0x0080\<close>, never negative.
\<close>

definition getTemp_decode :: "int \<Rightarrow> rat" where
  "getTemp_decode temp0 =
     (let dec = drop_bit 15 (temp0 AND 0x8000);
          temsign = temp0 AND 0x0080;
          temp = temp0 AND 0x007F
      in of_int ((- 1) ^ nat temsign) * (of_int temp + (1 / 2) * of_int dec))"

definition getTemp :: "LM75 \<Rightarrow> world \<Rightarrow> rat \<times> world" where
  "getTemp self w =
     (let (temp, w1) = read_word_data (bus self) (address self) 0x00 w
      in (getTemp_decode temp, w1))"

definition getThys_decode :: "int \<Rightarrow> rat" where
  "getThys_decode thys0 =
     (let dec = drop_bit 15 (thys0 AND 0x8000);
          thyssign = thys0 AND 0x0080;
          thys = thys0 AND 0x007F
      in of_int ((- 1) ^ nat thyssign) * (of_int thys + (1 / 2) * of_int dec))"

definition getThys :: "LM75 \<Rightarrow> world \<Rightarrow> rat \<times> world" where
  "getThys self w =
     (let (thys, w1) = read_word_data (bus self) (address self) THYST w
      in (getThys_decode thys, w1))"

definition getTset_decode :: "int \<Rightarrow> rat" where
  "getTset_decode tos0 =
     (let dec = drop_bit 15 (tos0 AND 0x8000);
          tossign = tos0 AND 0x0080;
          tos = tos0 AND 0x007F
      in of_int ((- 1) ^ nat tossign) * (of_int tos + (1 / 2) * of_int dec))"

definition getTset :: "LM75 \<Rightarrow> world \<Rightarrow> rat \<times> world" where
  "getTset self w =
     (let (tos, w1) = read_word_data (bus self) (address self) TSET w
      in (getTset_decode tos, w1))"

text \<open>\<open>setPolarity\<close>: \<open>polarity == 1\<close> sets \<open>0x04\<close>, anything else masks with \<open>~0x04\<close>.\<close>

definition setPolarity :: "LM75 \<Rightarrow> int \<Rightarrow> world \<Rightarrow> world" where
  "setPolarity self polarity w =
     (let (cfgVal, w1) = getConf self w;
          cfgVal = (if polarity = 1 then cfgVal OR 0x04 else cfgVal AND NOT 0x04)
      in setConf self cfgVal w1)"

definition comparator_mode :: "LM75 \<Rightarrow> world \<Rightarrow> bool \<times> world" where
  "comparator_mode self w =
     (let (cfgVal, w1) = getConf self w;
          cfgVal = cfgVal AND 0xFD
      in (True, setConf self cfgVal w1))"

definition interrupt_mode :: "LM75 \<Rightarrow> world \<Rightarrow> bool \<times> world" where
  "interrupt_mode self w =
     (let (cfgVal, w1) = getConf self w;
          cfgVal = cfgVal OR 0x02
      in (True, setConf self cfgVal w1))"

definition wakeup :: "LM75 \<Rightarrow> world \<Rightarrow> bool \<times> world" where
  "wakeup self w =
     (let (cfgVal, w1) = getConf self w;
          cfgVal = cfgVal AND 0xFE
      in (True, setConf self cfgVal w1))"

definition shutdown :: "LM75 \<Rightarrow> world \<Rightarrow> bool \<times> world" where
  "shutdown self w =
     (let (cfgVal, w1) = getConf self w;
          cfgVal = cfgVal OR 0x01
      in (True, setConf self cfgVal w1))"

subsection \<open>The decoding and the encoding as the specification words them\<close>

text \<open>
  The specification's decoding, word for word: bit 15 is the half-degree flag \<open>dec\<close>,
  bit 7 the sign flag, bits 0-6 the magnitude, and the result is
  (sign flag ? -1 : +1) x (magnitude + 0.5 x dec). It is kept apart from the three
  decoders of the source, to be compared with them.
\<close>

definition spec_decode :: "16 word \<Rightarrow> rat" where
  "spec_decode raw =
     (let dec = (if bit raw 15 then 1 else 0);
          sign = bit raw 7;
          magnitude = of_nat (unat (raw AND 0x007F))
      in (if sign then - 1 else 1) * (magnitude + (1 / 2) * dec))"

text \<open>
  The driver has no encoder: \<open>setThys\<close> and \<open>setTset\<close> pass the caller's word
  through. The 9-bit sign-magnitude encoding is therefore the one the specification
  describes: bit 7 is set for a negative value, bits 0-6 hold the integer part of the
  absolute value, bit 15 is set when a half degree remains.
\<close>

definition spec_encode :: "rat \<Rightarrow> 16 word" where
  "spec_encode x =
     (let magnitude = \<lfloor>\<bar>x\<bar>\<rfloor>;
          half = (\<bar>x\<bar> - of_int magnitude = 1 / 2)
      in (if half then 0x8000 else 0) OR (if x < 0 then 0x0080 else 0)
           OR (word_of_int magnitude AND 0x007F))"

subsection \<open>Concrete inputs\<close>

text \<open>
  The sensor of \<open>testSensor\<close>, \<open>LM75(0x48)\<close> on the default bus 1, and a world in
  which every byte register holds \<open>c\<close> and every word register holds \<open>t\<close>, with nothing
  logged or printed yet.
\<close>

definition sensor :: LM75 where
  "sensor = \<lparr>bus = 1, address = 0x48\<rparr>"

definition world_with :: "8 word \<Rightarrow> 16 word \<Rightarrow> world" where
  "world_with c t = \<lparr>byte_reg = (\<lambda>_. c), word_reg = (\<lambda>_. t), trace = [], stdout = []\<rparr>"

section \<open>Temperature decoding\<close>

text \<open>
  The exponent of the sign term is \<open>x & 0x0080\<close>, which is 0 or 128 and never 1, so the
  power is 1 whatever bit 7 is.
\<close>

lemma sign_term: "(- 1 :: int) ^ nat (t AND 0x0080) = 1"
proof -
  have "even (t AND 0x0080)" by (simp add: even_and_iff)
  moreover have "0 \<le> t AND 0x0080" by simp
  ultimately have "even (nat (t AND 0x0080))" by (simp add: even_nat_iff)
  then show ?thesis by simp
qed

lemma half_flag: "drop_bit 15 ((t::int) AND 0x8000) = drop_bit 15 t mod 2"
proof -
  have "drop_bit 15 (t AND 0x8000) = drop_bit 15 t AND drop_bit 15 (0x8000::int)"
    by (rule drop_bit_and)
  also have "drop_bit 15 (0x8000::int) = 1" by (simp add: drop_bit_eq_div)
  finally show ?thesis by (simp add: and_one_eq)
qed

lemma getTemp_decode_eq:
  "getTemp_decode t = of_int (t AND 0x007F) + of_int (drop_bit 15 t mod 2) / 2"
  unfolding getTemp_decode_def Let_def sign_term half_flag by simp

lemma getThys_decode_eq:
  "getThys_decode t = of_int (t AND 0x007F) + of_int (drop_bit 15 t mod 2) / 2"
  unfolding getThys_decode_def Let_def sign_term half_flag by simp

lemma getTset_decode_eq:
  "getTset_decode t = of_int (t AND 0x007F) + of_int (drop_bit 15 t mod 2) / 2"
  unfolding getTset_decode_def Let_def sign_term half_flag by simp

lemma magnitude_range: "0 \<le> (t::int) AND 0x007F" "(t::int) AND 0x007F \<le> 127"
  by (simp_all add: AND_upper2')

lemma decoded_range:
  fixes t :: int
  defines "k \<equiv> 2 * (t AND 0x007F) + drop_bit 15 t mod 2"
  shows "0 \<le> k" and "k \<le> 255"
    and "rat_of_int (t AND 0x007F) + of_int (drop_bit 15 t mod 2) / 2 = of_int k / 2"
proof -
  have d: "0 \<le> drop_bit 15 t mod 2" "drop_bit 15 t mod 2 \<le> 1" by simp_all
  show "0 \<le> k" using magnitude_range(1) [of t] d(1) by (simp add: k_def)
  show "k \<le> 255" using magnitude_range(2) [of t] d(2) unfolding k_def by linarith
  show "rat_of_int (t AND 0x007F) + of_int (drop_bit 15 t mod 2) / 2 = of_int k / 2"
    by (simp add: k_def add_divide_distrib)
qed

text \<open>
  C10. For every 16-bit raw word, the sign term of the three decoders is +1, and each
  of \<open>getTemp\<close>, \<open>getThys\<close> and \<open>getTset\<close> decodes it to a value in [0, 127.5] that is
  a multiple of 0.5: \<open>k / 2\<close> for an integer \<open>k\<close> between 0 and 255.
\<close>

theorem decode_nonnegative:
  fixes raw :: "16 word"
  shows "(- 1 :: int) ^ nat (uint raw AND 0x0080) = 1
    \<and> (\<exists>k::int. 0 \<le> k \<and> k \<le> 255 \<and> getTemp_decode (uint raw) = of_int k / 2)
    \<and> (\<exists>k::int. 0 \<le> k \<and> k \<le> 255 \<and> getThys_decode (uint raw) = of_int k / 2)
    \<and> (\<exists>k::int. 0 \<le> k \<and> k \<le> 255 \<and> getTset_decode (uint raw) = of_int k / 2)
    \<and> 0 \<le> getTemp_decode (uint raw) \<and> getTemp_decode (uint raw) \<le> 255 / 2
    \<and> 0 \<le> getThys_decode (uint raw) \<and> getThys_decode (uint raw) \<le> 255 / 2
    \<and> 0 \<le> getTset_decode (uint raw) \<and> getTset_decode (uint raw) \<le> 255 / 2"
proof -
  define k where "k = 2 * (uint raw AND 0x007F) + drop_bit 15 (uint raw) mod 2"
  have k: "0 \<le> k" "k \<le> 255"
    and v: "rat_of_int (uint raw AND 0x007F) + of_int (drop_bit 15 (uint raw) mod 2) / 2
              = of_int k / 2"
    unfolding k_def by (rule decoded_range)+
  have lo: "0 \<le> rat_of_int k / 2" using k(1) by simp
  have "rat_of_int k \<le> 255" using k(2) by linarith
  then have hi: "rat_of_int k / 2 \<le> 255 / 2" by simp
  have ex: "\<exists>j::int. 0 \<le> j \<and> j \<le> 255 \<and> rat_of_int k / 2 = of_int j / 2"
    using k by blast
  show ?thesis
    unfolding getTemp_decode_eq getThys_decode_eq getTset_decode_eq v
    using sign_term [of "uint raw"] lo hi ex by simp
qed

text \<open>
  C1 (the code departs from the claim). The raw word \<open>0x0081\<close> has bit 7 set, magnitude
  1 and no half degree: the specification's decoding gives -1, the decoder of
  \<open>getTemp\<close> gives +1, and so does \<open>getTemp\<close> on a sensor whose TEMP register holds that
  word.
\<close>

theorem getTemp_sign_flag_ignored:
  "getTemp_decode (uint (0x0081 :: 16 word)) = 1
    \<and> spec_decode 0x0081 = - 1
    \<and> fst (getTemp sensor (world_with 0 0x0081)) = 1"
  by (simp add: getTemp_decode_eq spec_decode_def getTemp_def read_word_data_def
      world_with_def)

text \<open>
  C8. The decoders of \<open>getThys\<close> and \<open>getTset\<close> return what the decoder of \<open>getTemp\<close>
  returns, on every integer and so on every raw word; the three getters differ only in
  the register they read: \<open>0x00\<close>, \<open>0x02\<close> and \<open>0x03\<close>.
\<close>

theorem getters_same_decode:
  "getThys_decode t = getTemp_decode t
    \<and> getTset_decode t = getTemp_decode t
    \<and> getTemp self w =
        (getTemp_decode (uint (word_reg w (bus self, address self, 0x00))),
         w\<lparr>trace := trace w @ [ReadWord (bus self) (address self) 0x00]\<rparr>)
    \<and> getThys self w =
        (getTemp_decode (uint (word_reg w (bus self, address self, 0x02))),
         w\<lparr>trace := trace w @ [ReadWord (bus self) (address self) 0x02]\<rparr>)
    \<and> getTset self w =
        (getTemp_decode (uint (word_reg w (bus self, address self, 0x03))),
         w\<lparr>trace := trace w @ [ReadWord (bus self) (address self) 0x03]\<rparr>)"
  by (simp add: getTemp_decode_eq getThys_decode_eq getTset_decode_eq
      getTemp_def getThys_def getTset_def read_word_data_def THYST_def TSET_def)

text \<open>
  C9. The raw word \<open>0x0000\<close> decodes to 0.0 in each getter. After construction, the
  hysteresis getter returns 75.0 and the set-point getter 80.0: the words \<open>0x004B\<close> and
  \<open>0x0050\<close> that \<open>__init__\<close> writes decode to these.
\<close>

theorem decode_init_defaults:
  "getTemp_decode (uint (0x0000 :: 16 word)) = 0
    \<and> getThys_decode (uint (0x0000 :: 16 word)) = 0
    \<and> getTset_decode (uint (0x0000 :: 16 word)) = 0
    \<and> getThys_decode (uint (0x004B :: 16 word)) = 75
    \<and> getTset_decode (uint (0x0050 :: 16 word)) = 80
    \<and> fst (getThys (fst (init add b w)) (snd (init add b w))) = 75
    \<and> fst (getTset (fst (init add b w)) (snd (init add b w))) = 80"
  by (simp add: getThys_decode_eq getTset_decode_eq getTemp_decode_eq init_def Let_def
      setConf_def setThys_def setTset_def write_byte_data_def write_word_data_def
      getThys_def getTset_def read_word_data_def THYST_def TSET_def CONFIG_def)

section \<open>The round trip through the encoding\<close>

lemma and127_small:
  assumes "0 \<le> m" "m \<le> 127"
  shows "(m::int) AND 127 = m"
proof -
  have "m AND mask 7 = take_bit 7 m" by (simp add: take_bit_eq_mask)
  also have "\<dots> = m" using assms by (simp add: take_bit_int_eq_self)
  finally show ?thesis by (simp add: mask_eq_exp_minus_1)
qed

lemma half_steps:
  assumes "0 \<le> h"
  shows "\<lfloor>rat_of_int h / 2\<rfloor> = h div 2"
    and "(rat_of_int h / 2 - of_int (h div 2) = 1 / 2) = odd h"
    and "rat_of_int (h div 2) + of_int (if odd h then 1 else 0) / 2 = of_int h / 2"
proof -
  show "\<lfloor>rat_of_int h / 2\<rfloor> = h div 2" by linarith
  consider k where "h = 2 * k" | k where "h = 2 * k + 1"
    by (cases "even h") (auto elim: evenE oddE)
  then show "(rat_of_int h / 2 - of_int (h div 2) = 1 / 2) = odd h"
    by cases (simp_all add: add_divide_distrib)
  consider k where "h = 2 * k" | k where "h = 2 * k + 1"
    by (cases "even h") (auto elim: evenE oddE)
  then show "rat_of_int (h div 2) + of_int (if odd h then 1 else 0) / 2 = of_int h / 2"
    by cases (simp_all add: add_divide_distrib)
qed

text \<open>The word that encodes \<open>h\<close> half degrees, \<open>0 \<le> h \<le> 255\<close>, read as an integer.\<close>

lemma spec_encode_nonneg:
  assumes "0 \<le> h" "h \<le> 255"
  shows "uint (spec_encode (of_int h / 2)) = (if odd h then 32768 else 0) OR h div 2"
proof -
  have ab: "\<bar>rat_of_int h / 2\<bar> = of_int h / 2" using assms by simp
  have e: "spec_encode (of_int h / 2) =
      (if odd h then 0x8000 else 0) OR (if rat_of_int h / 2 < 0 then 0x0080 else 0)
        OR (word_of_int (h div 2) AND 0x007F)"
    unfolding spec_encode_def Let_def ab half_steps(1,2) [OF assms(1)] by (rule refl)
  have m: "0 \<le> h div 2" "h div 2 \<le> 127" using assms by auto
  have "uint ((word_of_int (h div 2) :: 16 word) AND 0x007F) = h div 2"
    using m by (simp add: uint_and uint_word_of_int and127_small)
  moreover have "\<not> rat_of_int h / 2 < 0" using assms by simp
  ultimately show ?thesis
    unfolding e by (simp add: uint_or)
qed

lemma raw_nonneg_fields:
  assumes "0 \<le> m" "m \<le> 127"
  shows "((if d then 32768 else 0) OR m) AND 127 = (m::int)"
    and "drop_bit 15 ((if d then 32768 else 0) OR m) mod 2 = (if d then 1 else 0::int)"
proof -
  show "((if d then 32768 else 0) OR m) AND 127 = m"
    using assms by (simp add: bit.conj_disj_distrib2 and127_small)
  have z: "drop_bit 15 m = 0" using assms by (simp add: drop_bit_eq_div)
  have o: "drop_bit 15 (32768::int) = 1" by (simp add: drop_bit_eq_div)
  have "drop_bit 15 ((if d then 32768 else 0) OR m) = (if d then 1 else 0)"
    unfolding drop_bit_or z using o by simp
  then show "drop_bit 15 ((if d then 32768 else 0) OR m) mod 2 = (if d then 1 else 0::int)"
    by simp
qed

text \<open>
  On the values from 0.0 to 127.5 the sign flag is clear and the decoder of \<open>getTemp\<close>
  takes the encoding of \<open>x = h / 2\<close> back to \<open>x\<close>.
\<close>

lemma source_roundtrip_nonneg:
  assumes "0 \<le> h" and "h \<le> 255"
  shows "getTemp_decode (uint (spec_encode (of_int h / 2))) = of_int h / 2"
proof -
  have m: "0 \<le> h div 2" "h div 2 \<le> 127" using assms by auto
  show ?thesis
    unfolding getTemp_decode_eq spec_encode_nonneg [OF assms] raw_nonneg_fields [OF m]
    by (rule half_steps(3) [OF assms(1)])
qed

text \<open>
  The decoder of the source is the specification's decoding without its sign: the two
  agree when bit 7 is clear and are opposite when it is set.
\<close>

lemma spec_decode_vs_source:
  "spec_decode raw = (if bit raw 7 then - 1 else 1) * getTemp_decode (uint raw)"
proof -
  have "rat_of_nat (unat (raw AND 0x007F)) = rat_of_int (int (unat (raw AND 0x007F)))"
    by (simp only: of_int_of_nat_eq)
  also have "int (unat (raw AND 0x007F)) = uint raw AND 0x007F"
    by (simp add: uint_and)
  finally have m: "rat_of_nat (unat (raw AND 0x007F)) = of_int (uint raw AND 0x007F)" .
  have "bit (uint raw) 15 = bit raw 15" by (simp add: bit_uint_iff)
  then have "odd (drop_bit 15 (uint raw)) = bit raw 15"
    by (simp only: bit_iff_odd_drop_bit)
  then have d: "drop_bit 15 (uint raw) mod 2 = (if bit raw 15 then 1 else 0)"
    by (auto simp add: odd_iff_mod_2_eq_one)
  show ?thesis
    unfolding spec_decode_def Let_def getTemp_decode_eq m d by simp
qed

lemma getTemp_decode_sign_bit: "getTemp_decode (t OR 0x0080) = getTemp_decode t"
proof -
  have a: "(t OR 0x0080) AND 0x007F = t AND 0x007F"
    by (simp add: bit.conj_disj_distrib2)
  have "drop_bit 15 (0x0080::int) = 0" by (simp add: drop_bit_eq_div)
  then have b: "drop_bit 15 (t OR 0x0080) = drop_bit 15 t"
    unfolding drop_bit_or by simp
  show ?thesis unfolding getTemp_decode_eq a b by (rule refl)
qed

lemma spec_encode_neg:
  assumes "0 < x"
  shows "spec_encode (- x) = spec_encode x OR 0x0080"
  using assms by (simp add: spec_encode_def Let_def ac_simps)

lemma bit7_nonneg:
  assumes "0 \<le> h" "h \<le> 255"
  shows "\<not> bit (spec_encode (of_int h / 2)) 7"
proof -
  have m: "\<not> bit (h div 2) 7" using assms by (simp add: bit_iff_odd)
  have c: "\<not> bit (32768::int) 7" "\<not> bit (0::int) 7" by (simp_all add: bit_iff_odd)
  have "\<not> bit ((if odd h then 32768 else 0) OR h div 2) 7"
    unfolding bit_or_iff using m c by simp
  then have "\<not> bit (uint (spec_encode (of_int h / 2))) 7"
    unfolding spec_encode_nonneg [OF assms] .
  then show ?thesis by (simp add: bit_uint_iff)
qed

lemma bit7_neg: "bit (w OR (0x0080 :: 16 word)) 7"
proof -
  have "bit (0x0080 :: 16 word) 7" by (simp add: bit_iff_odd)
  then show ?thesis unfolding bit_or_iff by simp
qed

text \<open>
  With the specification's own decoding the round trip holds on every value from -127.5
  to 127.5 at 0.5-degree steps.
\<close>

lemma spec_roundtrip:
  assumes "- 255 \<le> h" and "h \<le> 255"
  shows "spec_decode (spec_encode (of_int h / 2)) = of_int h / 2"
proof (cases "0 \<le> h")
  case True
  show ?thesis
    unfolding spec_decode_vs_source
    using bit7_nonneg [OF True assms(2)] source_roundtrip_nonneg [OF True assms(2)] by simp
next
  case False
  define k where "k = - h"
  have k: "0 \<le> k" "k \<le> 255" "0 < rat_of_int k / 2"
    using False assms by (simp_all add: k_def)
  have h: "rat_of_int h / 2 = - (rat_of_int k / 2)" by (simp add: k_def)
  show ?thesis
    unfolding h spec_encode_neg [OF k(3)] spec_decode_vs_source uint_or
    using bit7_neg [of "spec_encode (rat_of_int k / 2)"]
      getTemp_decode_sign_bit [of "uint (spec_encode (rat_of_int k / 2))"]
      source_roundtrip_nonneg [OF k(1,2)]
    by simp
qed

text \<open>
  With the decoder of the source the sign is lost: on every value of that range the
  round trip returns the absolute value.
\<close>

lemma source_roundtrip_abs:
  assumes "- 255 \<le> h" and "h \<le> 255"
  shows "getTemp_decode (uint (spec_encode (of_int h / 2))) = \<bar>of_int h / 2\<bar>"
proof (cases "0 \<le> h")
  case True
  then show ?thesis using source_roundtrip_nonneg [OF True assms(2)] by simp
next
  case False
  define k where "k = - h"
  have k: "0 \<le> k" "k \<le> 255" "0 < rat_of_int k / 2"
    using False assms by (simp_all add: k_def)
  have h: "rat_of_int h / 2 = - (rat_of_int k / 2)" by (simp add: k_def)
  show ?thesis
    unfolding h spec_encode_neg [OF k(3)] uint_or
    using getTemp_decode_sign_bit [of "uint (spec_encode (rat_of_int k / 2))"]
      source_roundtrip_nonneg [OF k(1,2)] k(1)
    by simp
qed

text \<open>
  The lower end of the stated range has no sign-magnitude encoding: the magnitude 128
  does not fit bits 0-6, the word built for -128.0 is \<open>0x0080\<close>, and the specification's
  own decoding takes that word to 0.
\<close>

lemma minus_128_not_encodable:
  "spec_encode (- 128) = 0x0080 \<and> spec_decode (spec_encode (- 128)) = 0"
  by (simp add: spec_encode_def spec_decode_def)

text \<open>
  C2 (the code departs from the claim). The value -1.0 is encoded as \<open>0x0081\<close>. The
  specification's decoding takes that word back to -1.0; the decoder of \<open>getTemp\<close> takes
  it to +1.0, and so does \<open>getTemp\<close> on a sensor whose TEMP register holds the word.
\<close>

theorem roundtrip_fails_on_negative:
  "spec_encode (- 1) = 0x0081
    \<and> spec_decode (spec_encode (- 1)) = - 1
    \<and> getTemp_decode (uint (spec_encode (- 1))) = 1
    \<and> fst (getTemp sensor (world_with 0 (spec_encode (- 1)))) = 1"
  by (simp add: spec_encode_def spec_decode_def getTemp_decode_eq getTemp_def
      read_word_data_def world_with_def)

section \<open>The configuration register\<close>

lemma getConf_eq:
  "getConf self w =
     (uint (byte_reg w (bus self, address self, 0x01)),
      w\<lparr>trace := trace w @ [ReadByte (bus self) (address self) 0x01]\<rparr>)"
  by (simp add: getConf_def read_byte_data_def CONFIG_def)

lemma setConf_eq:
  "setConf self v w =
     w\<lparr>byte_reg := (byte_reg w)((bus self, address self, 0x01) := word_of_int v),
       trace := trace w @ [WriteByte (bus self) (address self) 0x01 v]\<rparr>"
  by (simp add: setConf_def write_byte_data_def CONFIG_def)

lemma bit4_int: "bit (4::int) n = (n = 2)"
  using bit_exp_iff [where ?'a = int, of 2 n] by auto

lemma bit4_byte: "bit (4::8 word) n = (n = 2)"
  using bit_exp_iff [where ?'a = "8 word", of 2 n] by auto

lemma fe_byte: "(0xFE::8 word) = NOT 1"
  by simp

text \<open>
  On a byte read from the bus, Python's \<open>|\<close>, \<open>&\<close> and \<open>~\<close> on unbounded integers give
  the byte operations: \<open>~0x04\<close> is -5, and the higher bits it sets meet zeros.
\<close>

lemma uint_and_not4: "uint (c::8 word) AND NOT 4 = uint (c AND NOT 4)"
  by (rule bit_eqI) (auto simp add: bit_simps bit4_int bit4_byte dest: bit_imp_le_length)

lemma set_bit0: "bit ((c::8 word) OR 1) n = (if n = 0 then True else bit c n)"
  by (auto simp add: bit_simps)

lemma clear_bit0: "bit ((c::8 word) AND 0xFE) n = (if n = 0 then False else bit c n)"
  unfolding fe_byte by (auto simp add: bit_simps dest: bit_imp_le_length)

lemma clear_bit2: "bit ((c::8 word) AND NOT 4) n = (if n = 2 then False else bit c n)"
  by (auto simp add: bit_simps bit4_byte bit4_int dest: bit_imp_le_length)

lemma set_bit2: "bit ((c::8 word) OR 4) n = (if n = 2 then True else bit c n)"
  by (auto simp add: bit_simps bit4_byte bit4_int)

text \<open>
  The read-modify-write every helper performs, when the value written is the byte \<open>c'\<close>,
  and what \<open>getConf\<close> returns after it.
\<close>

lemma read_modify_write:
  "setConf self (uint c') (snd (getConf self w)) =
     w\<lparr>byte_reg := (byte_reg w)((bus self, address self, 0x01) := c'),
       trace := trace w @ [ReadByte (bus self) (address self) 0x01,
                           WriteByte (bus self) (address self) 0x01 (uint c')]\<rparr>"
  by (simp add: getConf_eq setConf_eq)

lemma read_back:
  "fst (getConf self
      (w\<lparr>byte_reg := (byte_reg w)((bus self, address self, 0x01) := c'), trace := tr\<rparr>)) =
     uint c'"
  by (simp add: getConf_eq)

text \<open>
  C5. Construction returns the object with the two attributes and adds exactly three
  transactions to the log, in this order: the byte \<open>0x00\<close> written to register \<open>0x01\<close>,
  the word \<open>0x004B\<close> to register \<open>0x02\<close>, the word \<open>0x0050\<close> to register \<open>0x03\<close>.
\<close>

theorem init_three_writes:
  "fst (init add b w) = \<lparr>bus = b, address = add\<rparr>
    \<and> trace (snd (init add b w)) =
        trace w @ [WriteByte b add 0x01 0x00, WriteWord b add 0x02 0x004B,
                   WriteWord b add 0x03 0x0050]"
  by (simp add: init_def Let_def setConf_def setThys_def setTset_def
      write_byte_data_def write_word_data_def CONFIG_def THYST_def TSET_def)

text \<open>
  C7. With \<open>c\<close> the configuration byte before the call, \<open>shutdown\<close> reads it and writes
  back \<open>c\<close> with bit 0 set, \<open>wakeup\<close> reads it and writes back \<open>c\<close> with bit 0 cleared;
  every other bit of the written byte is the bit of \<open>c\<close>, and a following \<open>getConf\<close>
  returns the written byte.
\<close>

theorem shutdown_wakeup_bit0:
  "(let c = byte_reg w (bus self, address self, 0x01) in
      shutdown self w =
        (True,
         w\<lparr>byte_reg := (byte_reg w)((bus self, address self, 0x01) := c OR 0x01),
           trace := trace w @ [ReadByte (bus self) (address self) 0x01,
                               WriteByte (bus self) (address self) 0x01 (uint (c OR 0x01))]\<rparr>)
      \<and> fst (getConf self (snd (shutdown self w))) = uint (c OR 0x01)
      \<and> bit (c OR 0x01) n = (if n = 0 then True else bit c n)
      \<and> wakeup self w =
        (True,
         w\<lparr>byte_reg := (byte_reg w)((bus self, address self, 0x01) := c AND 0xFE),
           trace := trace w @ [ReadByte (bus self) (address self) 0x01,
                               WriteByte (bus self) (address self) 0x01 (uint (c AND 0xFE))]\<rparr>)
      \<and> fst (getConf self (snd (wakeup self w))) = uint (c AND 0xFE)
      \<and> bit (c AND 0xFE) n = (if n = 0 then False else bit c n))"
proof -
  let ?c = "byte_reg w (bus self, address self, 0x01)"
  have "shutdown self w = (True, setConf self (uint (?c OR 0x01)) (snd (getConf self w)))"
    by (simp add: shutdown_def getConf_eq Let_def uint_or)
  then have s: "shutdown self w =
        (True,
         w\<lparr>byte_reg := (byte_reg w)((bus self, address self, 0x01) := ?c OR 0x01),
           trace := trace w @ [ReadByte (bus self) (address self) 0x01,
                               WriteByte (bus self) (address self) 0x01 (uint (?c OR 0x01))]\<rparr>)"
    unfolding read_modify_write .
  have "wakeup self w = (True, setConf self (uint (?c AND 0xFE)) (snd (getConf self w)))"
    by (simp add: wakeup_def getConf_eq Let_def uint_and)
  then have u: "wakeup self w =
        (True,
         w\<lparr>byte_reg := (byte_reg w)((bus self, address self, 0x01) := ?c AND 0xFE),
           trace := trace w @ [ReadByte (bus self) (address self) 0x01,
                               WriteByte (bus self) (address self) 0x01 (uint (?c AND 0xFE))]\<rparr>)"
    unfolding read_modify_write .
  have gs: "fst (getConf self (snd (shutdown self w))) = uint (?c OR 0x01)"
    unfolding s by (simp only: snd_conv read_back)
  have gu: "fst (getConf self (snd (wakeup self w))) = uint (?c AND 0xFE)"
    unfolding u by (simp only: snd_conv read_back)
  show ?thesis
    unfolding Let_def using s u gs gu set_bit0 [of ?c n] clear_bit0 [of ?c n] by blast
qed

text \<open>
  C6. With \<open>c\<close> the configuration byte before the call, \<open>setPolarity\<close> reads it and
  writes back \<open>c\<close> with bit 2 set when the argument is 1 and with bit 2 cleared for any
  other argument; every other bit of the written byte is the bit of \<open>c\<close>, and a
  following \<open>getConf\<close> returns the written byte.
\<close>

theorem setPolarity_bit2:
  "(let c = byte_reg w (bus self, address self, 0x01);
        c' = (if polarity = 1 then c OR 0x04 else c AND NOT 0x04) in
      setPolarity self polarity w =
        w\<lparr>byte_reg := (byte_reg w)((bus self, address self, 0x01) := c'),
          trace := trace w @ [ReadByte (bus self) (address self) 0x01,
                              WriteByte (bus self) (address self) 0x01 (uint c')]\<rparr>
      \<and> fst (getConf self (setPolarity self polarity w)) = uint c'
      \<and> bit c' n = (if n = 2 then polarity = 1 else bit c n))"
proof -
  let ?c = "byte_reg w (bus self, address self, 0x01)"
  let ?c' = "if polarity = 1 then ?c OR 0x04 else ?c AND NOT 0x04"
  have "setPolarity self polarity w = setConf self (uint ?c') (snd (getConf self w))"
    using uint_and_not4 [of ?c]
    by (simp add: setPolarity_def getConf_eq Let_def uint_or)
  then have p: "setPolarity self polarity w =
        w\<lparr>byte_reg := (byte_reg w)((bus self, address self, 0x01) := ?c'),
          trace := trace w @ [ReadByte (bus self) (address self) 0x01,
                              WriteByte (bus self) (address self) 0x01 (uint ?c')]\<rparr>"
    unfolding read_modify_write .
  have g: "fst (getConf self (setPolarity self polarity w)) = uint ?c'"
    unfolding p by (simp only: read_back)
  have b: "bit ?c' n = (if n = 2 then polarity = 1 else bit ?c n)"
    by (cases "polarity = 1") (simp_all only: if_True if_False set_bit2 clear_bit2 simp_thms)
  show ?thesis
    unfolding Let_def using p g b by blast
qed

text \<open>
  What \<open>setFaultQueue\<close> does with a depth it accepts: it reads the configuration byte
  \<open>c\<close> and writes back \<open>c | (depth << 3)\<close>. Nothing clears bits 3-4 first.
\<close>

lemma setFaultQueue_accepted:
  assumes "v \<in> {0, 1, 2, 3}"
  shows "setFaultQueue self v w =
     (let c = byte_reg w (bus self, address self, 0x01); c' = c OR push_bit 3 (word_of_int v) in
        (True,
         w\<lparr>byte_reg := (byte_reg w)((bus self, address self, 0x01) := c'),
           trace := trace w @ [ReadByte (bus self) (address self) 0x01,
                               WriteByte (bus self) (address self) 0x01 (uint c')]\<rparr>))"
proof -
  let ?c = "byte_reg w (bus self, address self, 0x01)"
  have "uint ?c OR push_bit 3 v = uint (?c OR push_bit 3 (word_of_int v))"
    using assms by (auto simp add: uint_or)
  then have "setFaultQueue self v w =
      (True, setConf self (uint (?c OR push_bit 3 (word_of_int v))) (snd (getConf self w)))"
    using assms by (simp add: setFaultQueue_def getConf_eq Let_def)
  then show ?thesis
    unfolding read_modify_write Let_def .
qed

text \<open>
  C3 (the code departs from the claim). On the sensor of \<open>testSensor\<close> with the
  configuration byte \<open>0x08\<close> (depth bits 01), \<open>setFaultQueue(2)\<close> succeeds, reads the byte
  and writes \<open>0x18\<close>: a following \<open>getConf\<close> returns \<open>0x18\<close>, whose bits 3-4 are binary
  11, not 10.
\<close>

theorem setFaultQueue_keeps_old_depth_bits:
  "fst (setFaultQueue sensor 2 (world_with 0x08 0)) = True
    \<and> trace (snd (setFaultQueue sensor 2 (world_with 0x08 0))) =
        [ReadByte 1 0x48 0x01, WriteByte 1 0x48 0x01 0x18]
    \<and> fst (getConf sensor (snd (setFaultQueue sensor 2 (world_with 0x08 0)))) = 0x18
    \<and> drop_bit 3 (fst (getConf sensor (snd (setFaultQueue sensor 2 (world_with 0x08 0)))))
          AND 0x03 = (3::int)"
  by (simp add: setFaultQueue_def getConf_eq setConf_eq sensor_def world_with_def
      drop_bit_eq_div)

text \<open>
  C4. For every depth outside 0, 1, 2, 3, \<open>setFaultQueue\<close> returns \<open>False\<close> to its
  caller after printing its message, issues no bus transaction, leaves every register
  as it was, and a following \<open>getConf\<close> returns what it would have returned before.
\<close>

theorem setFaultQueue_rejected:
  assumes "v \<notin> {0, 1, 2, 3}"
  shows "fst (setFaultQueue self v w) = False
    \<and> trace (snd (setFaultQueue self v w)) = trace w
    \<and> byte_reg (snd (setFaultQueue self v w)) = byte_reg w
    \<and> word_reg (snd (setFaultQueue self v w)) = word_reg w
    \<and> stdout (snd (setFaultQueue self v w)) =
        stdout w @ [''Error: Invalid fault queue value. Must be  0,1,2 or 3'']
    \<and> fst (getConf self (snd (setFaultQueue self v w))) = fst (getConf self w)"
  using assms by (simp add: setFaultQueue_def getConf_eq)

theorem setFaultQueue_rejected_witness:
  "(4::int) \<notin> {0, 1, 2, 3}
    \<and> fst (setFaultQueue sensor 4 (world_with 0x18 0)) = False
    \<and> trace (snd (setFaultQueue sensor 4 (world_with 0x18 0))) = []
    \<and> fst (getConf sensor (snd (setFaultQueue sensor 4 (world_with 0x18 0)))) = 0x18"
  using setFaultQueue_rejected [of 4 sensor "world_with 0x18 0"]
  by (simp add: getConf_eq world_with_def)

end
